theory Spec2Isabelle
  imports Complex_Main
begin

section \<open>Values and errors\<close>

text \<open>
  The cells of a sheet and the entries of a row are JavaScript values. Numbers are
  modelled as exact reals (the IEEE rounding of the engine is not modelled); how the
  engine prints a number is a parameter of the model (\<open>numberToString\<close> below).
\<close>

datatype jsval = JUndefined | JNull | JString string | JBoolean bool | JNumber real

text \<open>
  Every \<open>throw\<close> the merge engine can meet is a value. \<open>TypeError\<close> is the engine's
  own (property access on \<open>undefined\<close>); the others are raised by the spreadsheet
  reader, the file system and the PDF library: a field that is absent or of another
  class, a page index outside the document, a font that is not a standard font (the
  engine registers no fontkit), a text a font cannot encode, a text longer than the
  maximum length of its field.
\<close>

datatype error =
    TypeError
  | ReadError
  | NoSuchFieldError string
  | UnexpectedFieldTypeError string
  | PageIndexError int
  | FontkitNotRegisteredError
  | EncodingError string
  | ExceededMaxLengthError string

section \<open>Spreadsheet model\<close>

text \<open>
  A worksheet is a sparse map from cell addresses (row, column) to cells, with an
  optional declared range (\<open>!ref\<close>, here already decoded).
\<close>

record cell_range =
  s_r :: nat
  s_c :: nat
  e_r :: nat
  e_c :: nat

record worksheet =
  ref :: "cell_range option"
  cells :: "nat \<times> nat \<rightharpoonup> jsval"

record workbook =
  SheetNames :: "string list"
  Sheets :: "string \<rightharpoonup> worksheet"

type_synonym RowMap = "int \<rightharpoonup> jsval"
type_synonym FormMap = "(string \<times> int) list"

section \<open>PDF model\<close>

text \<open>
  A font handle remembers the document instance it was embedded into. Document
  instances are told apart by a number drawn from a counter each time a document is
  parsed or created.
\<close>

record font_handle =
  font_name :: string
  owner :: nat

type_synonym FontMap = "string \<rightharpoonup> font_handle"

datatype TextAlignment = Left | Center | Right

record draw_op =
  op_text :: string
  op_x :: real
  op_y :: real
  op_lineHeight :: "real option"
  op_size :: real
  op_font :: font_handle
  op_maxWidth :: real
  op_color :: "real \<times> real \<times> real"

text \<open>
  The form fields of pdf-lib, one constructor per class, each with its name and the
  state the populator can change: the text of a text field (after its maximum length,
  if it declares one), the mark of a check box, the declared options and the selection
  of the three choice fields.
\<close>

datatype PDFField =
    PDFTextField string "nat option" "string option"
  | PDFCheckBox string bool
  | PDFRadioGroup string "string list" "string option"
  | PDFOptionList string "string list" "string list"
  | PDFDropdown string "string list" "string list"
  | PDFButton string
  | PDFSignature string

text \<open>
  A page has a size and the text drawn on it. A page copied out of a saved and
  re-parsed document no longer belongs to a form, but keeps the values of the fields
  as fixed content: \<open>baked\<close> (empty on the pages of a template).
\<close>

record PDFPage =
  page_width :: real
  page_height :: real
  content :: "draw_op list"
  baked :: "PDFField list"

text \<open>The serialised form of a document: what \<open>save\<close> writes and \<open>load\<close> parses.\<close>

record pdf_bytes =
  b_pages :: "PDFPage list"
  b_fields :: "PDFField list"

record PDFDocument =
  doc_id :: nat
  pages :: "PDFPage list"
  form_fields :: "PDFField list"

section \<open>Overlay model\<close>

text \<open>
  One object of the canvas dump. Every property of a fabric object is optional, so
  each is an option (\<open>None\<close> is \<open>undefined\<close>); \<open>index\<close> is the column the text box
  shows.
\<close>

record canvas_object =
  o_type :: string
  o_fill :: "string option"
  o_fontFamily :: "string option"
  o_fontSize :: "real option"
  o_left :: "real option"
  o_top :: "real option"
  o_width :: "real option"
  o_height :: "real option"
  o_textAlign :: "string option"
  o_lineHeight :: "real option"
  o_index :: int

record CanvasObjects =
  objects :: "canvas_object list"

record layout_bounds =
  b_x :: real
  b_y :: real
  b_width :: real
  b_height :: real

record layout_options =
  l_font :: string
  l_fontSize :: real
  l_bounds :: layout_bounds
  l_alignment :: TextAlignment

record text_line =
  line_text :: string
  line_x :: real
  line_y :: real

text \<open>
  What the engine takes from its libraries and from the outside: the printing of
  numbers; of pdf-lib the font metrics, the multi-line layout, which texts a font can
  encode (all three see a font through its name) and for which fields the appearance
  can be drawn afresh when a document is saved; the workbook reader (path and
  \<open>sheetRows\<close>) and the file system.
\<close>

record lib =
  numberToString :: "real \<Rightarrow> string"
  heightAtSize :: "string \<Rightarrow> real \<Rightarrow> bool \<Rightarrow> real"
  layoutMultilineText :: "string \<Rightarrow> layout_options \<Rightarrow> text_line list"
  encodes :: "string \<Rightarrow> string \<Rightarrow> bool"
  updateAppearance :: "PDFField \<Rightarrow> bool"
  xlsx_readFile :: "string \<Rightarrow> int \<Rightarrow> error + workbook"
  fs_readFile :: "string \<Rightarrow> error + pdf_bytes"

section \<open>String coercion\<close>

text \<open>\<open>String(v)\<close> and the template literal \<open>`${v}`\<close>.\<close>

fun toStr :: "lib \<Rightarrow> jsval \<Rightarrow> string" where
  "toStr L JUndefined = ''undefined''"
| "toStr L JNull = ''null''"
| "toStr L (JString s) = s"
| "toStr L (JBoolean b) = (if b then ''true'' else ''false'')"
| "toStr L (JNumber n) = numberToString L n"

text \<open>\<open>row[i]\<close>: a missing key reads as \<open>undefined\<close>.\<close>

definition row_get :: "RowMap \<Rightarrow> int \<Rightarrow> jsval" where
  "row_get row i = (case row i of None \<Rightarrow> JUndefined | Some v \<Rightarrow> v)"

section \<open>Tabular row reader\<close>

text \<open>
  \<open>sheetToArray\<close>: the two counting loops run over the declared range, both ends
  included; a cell missing from the sparse map gives the empty string.
\<close>

definition sheetToArray :: "worksheet \<Rightarrow> jsval list list" where
  "sheetToArray sheet =
     (case ref sheet of
        None \<Rightarrow> []
      | Some rng \<Rightarrow>
          map (\<lambda>rowNum.
                 map (\<lambda>colNum.
                        (case cells sheet (rowNum, colNum) of
                           None \<Rightarrow> JString ''''
                         | Some v \<Rightarrow> v))
                     [s_c rng ..< Suc (e_c rng)])
              [s_r rng ..< Suc (e_r rng)])"

text \<open>\<open>arr.forEach((r, i) => { row[i] = r; })\<close>, from position \<open>i\<close> on.\<close>

fun forEach_row :: "jsval list \<Rightarrow> int \<Rightarrow> RowMap \<Rightarrow> RowMap" where
  "forEach_row [] i row = row"
| "forEach_row (r # rs) i row = forEach_row rs (i + 1) (row(i \<mapsto> r))"

definition headerOffset :: nat where
  "headerOffset = 1"

text \<open>
  \<open>readFirstSheet\<close>. With no sheet name, \<open>sheetsList[0]\<close> is \<open>undefined\<close> and the
  lookup reads the property of that name; a sheet that is not there makes
  \<open>sheetToArray\<close> read \<open>!ref\<close> of \<open>undefined\<close>, a TypeError.
\<close>

definition readFirstSheet :: "lib \<Rightarrow> string \<Rightarrow> int \<Rightarrow> error + RowMap list" where
  "readFirstSheet L path rowsLimit =
     (let sheetRows = rowsLimit + int headerOffset in
      case xlsx_readFile L path sheetRows of
        Inl e \<Rightarrow> Inl e
      | Inr workbook \<Rightarrow>
          (let sheetsList = SheetNames workbook;
               firstSheet = Sheets workbook
                 (case sheetsList of [] \<Rightarrow> ''undefined'' | n # _ \<Rightarrow> n)
           in case firstSheet of
                None \<Rightarrow> Inl TypeError
              | Some sheet \<Rightarrow>
                  Inr (map (\<lambda>arr. forEach_row arr 0 Map.empty)
                           (drop headerOffset (sheetToArray sheet)))))"

section \<open>Form fields\<close>

text \<open>\<open>f.getName()\<close>.\<close>

fun getName :: "PDFField \<Rightarrow> string" where
  "getName (PDFTextField n m t) = n"
| "getName (PDFCheckBox n c) = n"
| "getName (PDFRadioGroup n opts sel) = n"
| "getName (PDFOptionList n opts sel) = n"
| "getName (PDFDropdown n opts sel) = n"
| "getName (PDFButton n) = n"
| "getName (PDFSignature n) = n"


text \<open>The tag type of the later version; \<open>NoType\<close> is the empty string.\<close>

datatype SupportedField = NoType | TextField | CheckBox | RadioGroup | OptionList | Dropdown

text \<open>
  \<open>getFieldType\<close>, the chain of \<open>instanceof\<close> tests. The populator calls it on
  \<open>fieldMap[key]\<close>, which is \<open>undefined\<close> for an unknown name: every test fails then.
\<close>

fun getFieldType :: "PDFField option \<Rightarrow> SupportedField" where
  "getFieldType (Some (PDFTextField n m t)) = TextField"
| "getFieldType (Some (PDFCheckBox n c)) = CheckBox"
| "getFieldType (Some (PDFRadioGroup n opts sel)) = RadioGroup"
| "getFieldType (Some (PDFOptionList n opts sel)) = OptionList"
| "getFieldType (Some (PDFDropdown n opts sel)) = Dropdown"
| "getFieldType _ = NoType"

text \<open>
  \<open>pdfForm.getFields().forEach((f) => { fieldMap[f.getName()] = f; })\<close>: a later
  field of the same name replaces an earlier one.
\<close>

fun build_fieldMap :: "PDFField list \<Rightarrow> (string \<rightharpoonup> PDFField) \<Rightarrow> (string \<rightharpoonup> PDFField)" where
  "build_fieldMap [] fieldMap = fieldMap"
| "build_fieldMap (f # fs) fieldMap = build_fieldMap fs (fieldMap(getName f \<mapsto> f))"

text \<open>
  The typed getters of the form: the first field of that name, \<open>NoSuchFieldError\<close>
  when there is none, \<open>UnexpectedFieldTypeError\<close> when it is of another class.
\<close>

fun getFieldMaybe :: "PDFField list \<Rightarrow> string \<Rightarrow> PDFField option" where
  "getFieldMaybe [] name = None"
| "getFieldMaybe (f # fs) name = (if getName f = name then Some f else getFieldMaybe fs name)"

definition getField :: "PDFField list \<Rightarrow> string \<Rightarrow> error + PDFField" where
  "getField pdfForm name =
     (case getFieldMaybe pdfForm name of
        None \<Rightarrow> Inl (NoSuchFieldError name)
      | Some f \<Rightarrow> Inr f)"

definition getTextField :: "PDFField list \<Rightarrow> string \<Rightarrow> error + PDFField" where
  "getTextField pdfForm name =
     (case getField pdfForm name of
        Inl e \<Rightarrow> Inl e
      | Inr f \<Rightarrow> (case f of PDFTextField n m t \<Rightarrow> Inr f
                         | _ \<Rightarrow> Inl (UnexpectedFieldTypeError name)))"

definition getCheckBox :: "PDFField list \<Rightarrow> string \<Rightarrow> error + PDFField" where
  "getCheckBox pdfForm name =
     (case getField pdfForm name of
        Inl e \<Rightarrow> Inl e
      | Inr f \<Rightarrow> (case f of PDFCheckBox n c \<Rightarrow> Inr f
                         | _ \<Rightarrow> Inl (UnexpectedFieldTypeError name)))"

definition getRadioGroup :: "PDFField list \<Rightarrow> string \<Rightarrow> error + PDFField" where
  "getRadioGroup pdfForm name =
     (case getField pdfForm name of
        Inl e \<Rightarrow> Inl e
      | Inr f \<Rightarrow> (case f of PDFRadioGroup n opts sel \<Rightarrow> Inr f
                         | _ \<Rightarrow> Inl (UnexpectedFieldTypeError name)))"

definition getOptionList :: "PDFField list \<Rightarrow> string \<Rightarrow> error + PDFField" where
  "getOptionList pdfForm name =
     (case getField pdfForm name of
        Inl e \<Rightarrow> Inl e
      | Inr f \<Rightarrow> (case f of PDFOptionList n opts sel \<Rightarrow> Inr f
                         | _ \<Rightarrow> Inl (UnexpectedFieldTypeError name)))"

definition getDropdown :: "PDFField list \<Rightarrow> string \<Rightarrow> error + PDFField" where
  "getDropdown pdfForm name =
     (case getField pdfForm name of
        Inl e \<Rightarrow> Inl e
      | Inr f \<Rightarrow> (case f of PDFDropdown n opts sel \<Rightarrow> Inr f
                         | _ \<Rightarrow> Inl (UnexpectedFieldTypeError name)))"

text \<open>
  The methods of a field object: each returns the object after the call. \<open>setText\<close>
  throws when the text is longer than the maximum length of the field, and removes the
  value when the text is empty.
\<close>

fun setText :: "PDFField \<Rightarrow> string \<Rightarrow> error + PDFField" where
  "setText (PDFTextField n m t) v =
     (if v \<noteq> [] \<and> (case m of None \<Rightarrow> False | Some maxLength \<Rightarrow> maxLength < length v)
      then Inl (ExceededMaxLengthError n)
      else Inr (PDFTextField n m (if v = [] then None else Some v)))"
| "setText f v = Inr f"

fun check :: "PDFField \<Rightarrow> PDFField" where
  "check (PDFCheckBox n c) = PDFCheckBox n True"
| "check f = f"

fun uncheck :: "PDFField \<Rightarrow> PDFField" where
  "uncheck (PDFCheckBox n c) = PDFCheckBox n False"
| "uncheck f = f"

fun getOptions :: "PDFField \<Rightarrow> string list" where
  "getOptions (PDFRadioGroup n opts sel) = opts"
| "getOptions (PDFOptionList n opts sel) = opts"
| "getOptions (PDFDropdown n opts sel) = opts"
| "getOptions f = []"

fun select :: "PDFField \<Rightarrow> string \<Rightarrow> PDFField" where
  "select (PDFRadioGroup n opts sel) v = PDFRadioGroup n opts (Some v)"
| "select (PDFOptionList n opts sel) v = PDFOptionList n opts [v]"
| "select (PDFDropdown n opts sel) v = PDFDropdown n opts [v]"
| "select f v = f"

text \<open>
  A getter hands out the field object itself, so a method call on it changes the
  form: the first field of that name is replaced by the object after the call.
\<close>

fun store_field :: "PDFField list \<Rightarrow> string \<Rightarrow> PDFField \<Rightarrow> PDFField list" where
  "store_field [] name g = []"
| "store_field (f # fs) name g =
     (if getName f = name then g # fs else f # store_field fs name g)"

text \<open>\<open>value.toLowerCase()\<close>, on the letters A to Z.\<close>

definition toLowerChar :: "char \<Rightarrow> char" where
  "toLowerChar c =
     (let n = (of_char c :: nat)
      in if 65 \<le> n \<and> n \<le> 90 then char_of (n + 32) else c)"

definition toLowerCase :: "string \<Rightarrow> string" where
  "toLowerCase s = map toLowerChar s"

section \<open>Form field populator, later version\<close>

text \<open>
  The callback of \<open>Object.keys(formData).forEach\<close> for one key: the form after the
  call, or the error thrown.
\<close>

definition populate_key ::
  "lib \<Rightarrow> RowMap \<Rightarrow> (string \<rightharpoonup> PDFField) \<Rightarrow> string \<times> int \<Rightarrow> PDFField list
     \<Rightarrow> error + PDFField list" where
  "populate_key L row fieldMap entry pdfForm =
     (let key = fst entry;
          index = snd entry;
          value = row_get row index
      in if index = -1 \<or> value = JUndefined \<or> value = JNull then Inr pdfForm
         else
           (let field = fieldMap key;
                value = toStr L value
            in case getFieldType field of
                 TextField \<Rightarrow>
                   (case getTextField pdfForm key of
                      Inl e \<Rightarrow> Inl e
                    | Inr f \<Rightarrow>
                        (case setText f value of
                           Inl e \<Rightarrow> Inl e
                         | Inr g \<Rightarrow> Inr (store_field pdfForm key g)))
               | CheckBox \<Rightarrow>
                   (if value \<noteq> [] \<and> toLowerCase value = ''true''
                    then (case getCheckBox pdfForm key of
                            Inl e \<Rightarrow> Inl e
                          | Inr f \<Rightarrow> Inr (store_field pdfForm key (check f)))
                    else (case getCheckBox pdfForm key of
                            Inl e \<Rightarrow> Inl e
                          | Inr f \<Rightarrow> Inr (store_field pdfForm key (uncheck f))))
               | RadioGroup \<Rightarrow>
                   (case getRadioGroup pdfForm key of
                      Inl e \<Rightarrow> Inl e
                    | Inr f \<Rightarrow>
                        if value \<in> set (getOptions f)
                        then (case getRadioGroup pdfForm key of
                                Inl e \<Rightarrow> Inl e
                              | Inr g \<Rightarrow> Inr (store_field pdfForm key (select g value)))
                        else Inr pdfForm)
               | OptionList \<Rightarrow>
                   (case getOptionList pdfForm key of
                      Inl e \<Rightarrow> Inl e
                    | Inr f \<Rightarrow>
                        if value \<in> set (getOptions f)
                        then (case getOptionList pdfForm key of
                                Inl e \<Rightarrow> Inl e
                              | Inr g \<Rightarrow> Inr (store_field pdfForm key (select g value)))
                        else Inr pdfForm)
               | Dropdown \<Rightarrow>
                   (case getDropdown pdfForm key of
                      Inl e \<Rightarrow> Inl e
                    | Inr f \<Rightarrow>
                        if value \<in> set (getOptions f)
                        then (case getDropdown pdfForm key of
                                Inl e \<Rightarrow> Inl e
                              | Inr g \<Rightarrow> Inr (store_field pdfForm key (select g value)))
                        else Inr pdfForm)
               | NoType \<Rightarrow> Inr pdfForm))"

text \<open>The \<open>forEach\<close> over the keys of the mapping: a throw ends it.\<close>

fun forEach_key ::
  "(string \<times> int \<Rightarrow> PDFField list \<Rightarrow> error + PDFField list) \<Rightarrow> FormMap \<Rightarrow> PDFField list
     \<Rightarrow> error + PDFField list" where
  "forEach_key body [] pdfForm = Inr pdfForm"
| "forEach_key body (entry # rest) pdfForm =
     (case body entry pdfForm of
        Inl e \<Rightarrow> Inl e
      | Inr pdfForm' \<Rightarrow> forEach_key body rest pdfForm')"

text \<open>
  \<open>renderForm\<close>, later version. The mapping is the list of its entries in the order
  \<open>Object.keys\<close> gives them; the form is the list of its fields.
\<close>

definition renderForm ::
  "lib \<Rightarrow> RowMap \<Rightarrow> FormMap option \<Rightarrow> PDFField list option \<Rightarrow> error + PDFField list option" where
  "renderForm L row formData pdfForm =
     (case (pdfForm, formData) of
        (Some form, Some fd) \<Rightarrow>
          (let fieldMap = build_fieldMap form Map.empty
           in case forEach_key (populate_key L row fieldMap) fd form of
                Inl e \<Rightarrow> Inl e
              | Inr form' \<Rightarrow> Inr (Some form'))
      | _ \<Rightarrow> Inr pdfForm)"

section \<open>Form field populator, earlier version\<close>



section \<open>Colours and fonts\<close>

definition isHexDigit :: "char \<Rightarrow> bool" where
  "isHexDigit c =
     (let n = (of_char c :: nat)
      in (48 \<le> n \<and> n \<le> 57) \<or> (97 \<le> n \<and> n \<le> 102) \<or> (65 \<le> n \<and> n \<le> 70))"

definition hexDigitValue :: "char \<Rightarrow> nat" where
  "hexDigitValue c =
     (let n = (of_char c :: nat)
      in if 48 \<le> n \<and> n \<le> 57 then n - 48
         else if 97 \<le> n \<and> n \<le> 102 then n - 87
         else n - 55)"

text \<open>\<open>parseInt(s, 16)\<close> on a string of hexadecimal digits.\<close>

definition parseHex :: "string \<Rightarrow> nat" where
  "parseHex s = foldl (\<lambda>acc c. 16 * acc + hexDigitValue c) 0 s"

text \<open>
  \<open>hexToRgb\<close>: an optional \<open>#\<close>, then exactly six hexadecimal digits of either
  case; anything else is black.
\<close>

definition hexToRgb :: "string \<Rightarrow> nat \<times> nat \<times> nat" where
  "hexToRgb hex =
     (let body = (case hex of [] \<Rightarrow> hex | c # cs \<Rightarrow> if c = CHR ''#'' then cs else hex)
      in if length body = 6 \<and> list_all isHexDigit body
         then (parseHex (take 2 body), parseHex (take 2 (drop 2 body)), parseHex (drop 4 body))
         else (0, 0, 0))"

definition Helvetica :: string where
  "Helvetica = ''Helvetica''"

text \<open>The names of the fourteen standard fonts.\<close>

definition StandardFontValues :: "string list" where
  "StandardFontValues =
     [''Courier'', ''Courier-Bold'', ''Courier-Oblique'', ''Courier-BoldOblique'',
      ''Helvetica'', ''Helvetica-Bold'', ''Helvetica-Oblique'', ''Helvetica-BoldOblique'',
      ''Times-Roman'', ''Times-Bold'', ''Times-Italic'', ''Times-BoldItalic'',
      ''Symbol'', ''ZapfDingbats'']"

text \<open>
  \<open>pdfDoc.embedFont(key)\<close>: the handle belongs to the document it was embedded into.
  A name that is not a standard font is taken for font data, which needs a fontkit:
  none is registered, so the call throws.
\<close>

definition embedFont :: "PDFDocument \<Rightarrow> string \<Rightarrow> error + font_handle" where
  "embedFont pdfDoc key =
     (if key \<in> set StandardFontValues then Inr \<lparr>font_name = key, owner = doc_id pdfDoc\<rparr>
      else Inl FontkitNotRegisteredError)"

text \<open>
  \<open>getFont\<close>: the handle and the cache after the call, or the error of \<open>embedFont\<close>.
  \<open>font || Helvetica\<close> takes the default for \<open>undefined\<close> and for the empty string.
\<close>

definition getFont ::
  "string option \<Rightarrow> PDFDocument \<Rightarrow> FontMap \<Rightarrow> error + font_handle \<times> FontMap" where
  "getFont font pdfDoc cachedFonts =
     (let key = (case font of None \<Rightarrow> Helvetica | Some s \<Rightarrow> if s = [] then Helvetica else s)
      in case cachedFonts key of
           None \<Rightarrow>
             (case embedFont pdfDoc key of
                Inl e \<Rightarrow> Inl e
              | Inr h \<Rightarrow> Inr (h, cachedFonts(key \<mapsto> h)))
         | Some h \<Rightarrow> Inr (h, cachedFonts))"

section \<open>Drawing the overlay\<close>

text \<open>\<open>v || d\<close> on a number: \<open>undefined\<close> and zero give the default.\<close>

definition or_default :: "real option \<Rightarrow> real \<Rightarrow> real" where
  "or_default v d = (case v of None \<Rightarrow> d | Some x \<Rightarrow> if x = 0 then d else x)"

definition text_alignment :: "canvas_object \<Rightarrow> TextAlignment" where
  "text_alignment o' =
     (if o_textAlign o' = Some ''right'' then Right
      else if o_textAlign o' = Some ''center'' then Center
      else Left)"

text \<open>
  The body of the loop of \<open>renderPage\<close> for one object: the page and the font cache
  after it, or the error thrown. Only an object of type \<open>text\<close> draws. The font may
  fail to embed; the layout measures the text with the font and \<open>drawText\<close> encodes
  each line with it, and both throw on a text the font cannot encode.
\<close>

definition render_object ::
  "lib \<Rightarrow> RowMap \<Rightarrow> PDFDocument \<Rightarrow> real \<Rightarrow> real \<Rightarrow> canvas_object \<Rightarrow> PDFPage \<times> FontMap
     \<Rightarrow> error + PDFPage \<times> FontMap" where
  "render_object L row pdfDoc ratio pheight o' st =
     (if o_type o' = ''text'' then
        (let page = fst st;
             cachedFonts = snd st;
             rgbCode = hexToRgb (case o_fill o' of None \<Rightarrow> ''undefined'' | Some s \<Rightarrow> s);
             color = (real (fst rgbCode) / 255, real (fst (snd rgbCode)) / 255,
                      real (snd (snd rgbCode)) / 255)
         in case getFont (o_fontFamily o') pdfDoc cachedFonts of
              Inl e \<Rightarrow> Inl e
            | Inr fc \<Rightarrow>
                (let font = fst fc;
                     size = or_default (o_fontSize o') 16 * ratio;
                     offset = heightAtSize L (font_name font) size True
                                - heightAtSize L (font_name font) size False;
                     x = or_default (o_left o') 0 * ratio + 1;
                     y = pheight - or_default (o_top o') 0 * ratio
                           - or_default (o_height o') 0 * ratio + offset;
                     alignment = text_alignment o';
                     text = toStr L (row_get row (o_index o'));
                     shown = (if text = [] then [] else text)
                 in if \<not> encodes L (font_name font) shown
                    then Inl (EncodingError (font_name font))
                    else
                      (let multiText = layoutMultilineText L shown
                             \<lparr>l_font = font_name font,
                              l_fontSize = size,
                              l_bounds = \<lparr>b_x = x, b_y = y,
                                          b_width = or_default (o_width o') 100 * ratio,
                                          b_height = or_default (o_height o') 100 * ratio\<rparr>,
                              l_alignment = alignment\<rparr>
                       in if \<not> list_all (\<lambda>p. encodes L (font_name font) (line_text p)) multiText
                          then Inl (EncodingError (font_name font))
                          else
                            Inr (page\<lparr>content := content page @
                                   map (\<lambda>p. \<lparr>op_text = line_text p, op_x = line_x p,
                                              op_y = line_y p,
                                              op_lineHeight = o_lineHeight o', op_size = size,
                                              op_font = font,
                                              op_maxWidth = or_default (o_width o') 100 * ratio,
                                              op_color = color\<rparr>) multiText\<rparr>,
                                 snd fc))))
      else Inr st)"

text \<open>The loop over the objects of the overlay: a throw ends it.\<close>

fun renderPage_loop ::
  "lib \<Rightarrow> RowMap \<Rightarrow> PDFDocument \<Rightarrow> real \<Rightarrow> real \<Rightarrow> canvas_object list \<Rightarrow> PDFPage \<times> FontMap
     \<Rightarrow> error + PDFPage \<times> FontMap" where
  "renderPage_loop L row pdfDoc ratio pheight [] st = Inr st"
| "renderPage_loop L row pdfDoc ratio pheight (o' # os) st =
     (case render_object L row pdfDoc ratio pheight o' st of
        Inl e \<Rightarrow> Inl e
      | Inr st' \<Rightarrow> renderPage_loop L row pdfDoc ratio pheight os st')"

text \<open>
  \<open>renderPage\<close>, later version: nothing is drawn without an overlay or with a canvas
  width that is \<open>undefined\<close> or zero.
\<close>

definition renderPage ::
  "lib \<Rightarrow> RowMap \<Rightarrow> PDFPage \<Rightarrow> PDFDocument \<Rightarrow> FontMap \<Rightarrow> CanvasObjects option \<Rightarrow> real option
     \<Rightarrow> error + PDFPage \<times> FontMap" where
  "renderPage L row page pdfDoc cachedFonts canvasData canvasWidth =
     (case canvasData of
        None \<Rightarrow> Inr (page, cachedFonts)
      | Some cd \<Rightarrow>
          (case canvasWidth of
             None \<Rightarrow> Inr (page, cachedFonts)
           | Some cw \<Rightarrow>
               if cw = 0 then Inr (page, cachedFonts)
               else
                 (let pwidth = page_width page;
                      pheight = page_height page;
                      ratio = pwidth / cw
                  in renderPage_loop L row pdfDoc ratio pheight (objects cd)
                       (page, cachedFonts))))"

section \<open>Documents\<close>

text \<open>
  \<open>PDFDocument.load\<close> and \<open>PDFDocument.create\<close> make a new document instance, here
  numbered by the caller. \<open>save\<close> draws the appearance of the fields afresh, which
  throws when a field holds a text the default font cannot encode, and adds one empty
  A4 page to a document without pages (the defaults of pdf-lib).
\<close>

definition PDFDocument_load :: "pdf_bytes \<Rightarrow> nat \<Rightarrow> PDFDocument" where
  "PDFDocument_load bytes n = \<lparr>doc_id = n, pages = b_pages bytes, form_fields = b_fields bytes\<rparr>"

definition PDFDocument_create :: "nat \<Rightarrow> PDFDocument" where
  "PDFDocument_create n = \<lparr>doc_id = n, pages = [], form_fields = []\<rparr>"

definition defaultPage :: PDFPage where
  "defaultPage = \<lparr>page_width = 59528 / 100, page_height = 84189 / 100, content = [], baked = []\<rparr>"

definition save :: "lib \<Rightarrow> PDFDocument \<Rightarrow> error + pdf_bytes" where
  "save L doc =
     (if \<not> list_all (updateAppearance L) (form_fields doc) then Inl (EncodingError Helvetica)
      else Inr \<lparr>b_pages = (if pages doc = [] then [defaultPage] else pages doc),
                b_fields = form_fields doc\<rparr>)"

definition getPage :: "PDFDocument \<Rightarrow> int \<Rightarrow> error + PDFPage" where
  "getPage doc i =
     (if 0 \<le> i \<and> i < int (length (pages doc)) then Inr (pages doc ! nat i)
      else Inl (PageIndexError i))"

text \<open>
  \<open>copyPages(src, [i])\<close>, the one page asked for: the copy carries the values of the
  fields of the document it comes from.
\<close>

definition copyPage :: "PDFDocument \<Rightarrow> int \<Rightarrow> error + PDFPage" where
  "copyPage src i =
     (if 0 \<le> i \<and> i < int (length (pages src))
      then Inr ((pages src ! nat i)\<lparr>baked := form_fields src\<rparr>)
      else Inl (PageIndexError i))"

definition addPage :: "PDFDocument \<Rightarrow> PDFPage \<Rightarrow> PDFDocument" where
  "addPage doc page = doc\<lparr>pages := pages doc @ [page]\<rparr>"

section \<open>Output names\<close>

text \<open>\<open>s.split('.')\<close>: the pieces between the separators, at least one piece.\<close>

fun split :: "string \<Rightarrow> char \<Rightarrow> string list" where
  "split [] sep = [[]]"
| "split (c # cs) sep =
     (if c = sep then [] # split cs sep
      else (c # hd (split cs sep)) # tl (split cs sep))"

text \<open>\<open>parts.join('.')\<close>.\<close>

fun join :: "string list \<Rightarrow> string \<Rightarrow> string" where
  "join [] sep = []"
| "join [p] sep = p"
| "join (p # q # ps) sep = p @ sep @ join (q # ps) sep"

text \<open>The decimal digits of a natural number, as \<open>`${n}`\<close> prints a row number.\<close>

definition digit :: "nat \<Rightarrow> char" where
  "digit d = char_of (48 + d)"

fun decimal :: "nat \<Rightarrow> string" where
  "decimal n = (if n < 10 then [digit n] else decimal (n div 10) @ [digit (n mod 10)])"

declare decimal.simps [simp del]

text \<open>The name of the file of row \<open>i\<close> (counted from 0) in split mode.\<close>

definition outputName :: "string \<Rightarrow> nat \<Rightarrow> string" where
  "outputName output i =
     (let outputs = split output CHR ''.'';
          baseName = join (butlast outputs) ''.'';
          fileEx = last outputs
      in baseName @ ''-'' @ decimal (i + 1) @ ''.'' @ fileEx)"

section \<open>Document assembler\<close>

text \<open>
  The variables of \<open>renderPdf\<close> that change from row to row, the calls of
  \<open>writeFile\<close> made so far (name and content, in order) and the number the next
  document instance gets.
\<close>

record render_state =
  st_pdfDoc :: PDFDocument
  st_newDoc :: PDFDocument
  st_cachedFonts :: FontMap
  st_written :: "(string \<times> pdf_bytes) list"
  st_next_id :: nat

text \<open>The body of the loop over the rows, for row \<open>i\<close> (counted from 0).\<close>

definition renderPdf_row ::
  "lib \<Rightarrow> string \<Rightarrow> pdf_bytes \<Rightarrow> int \<Rightarrow> bool \<Rightarrow> CanvasObjects option \<Rightarrow> real option
     \<Rightarrow> FormMap option \<Rightarrow> nat \<Rightarrow> RowMap \<Rightarrow> render_state \<Rightarrow> error + render_state" where
  "renderPdf_row L output pdfBuff pageIndex combinePdf canvasData canvasWidth formData i row st =
     (case renderForm L row formData (Some (form_fields (st_pdfDoc st))) of
        Inl e \<Rightarrow> Inl e
      | Inr form \<Rightarrow>
          (let doc1 = (st_pdfDoc st)\<lparr>form_fields :=
                         (case form of None \<Rightarrow> form_fields (st_pdfDoc st) | Some fs \<Rightarrow> fs)\<rparr>
           in case getPage doc1 pageIndex of
                Inl e \<Rightarrow> Inl e
              | Inr page \<Rightarrow>
                  (case renderPage L row page doc1 (st_cachedFonts st) canvasData canvasWidth of
                     Inl e \<Rightarrow> Inl e
                   | Inr drawn \<Rightarrow>
                       (let doc2 = doc1\<lparr>pages := (pages doc1)[nat pageIndex := fst drawn]\<rparr>
                        in case save L doc2 of
                             Inl e \<Rightarrow> Inl e
                           | Inr bytes \<Rightarrow>
                               (case copyPage (PDFDocument_load bytes (st_next_id st))
                                       pageIndex of
                                  Inl e \<Rightarrow> Inl e
                                | Inr newPage \<Rightarrow>
                                    (let out = addPage (st_newDoc st) newPage
                                     in if \<not> combinePdf then
                                          (case save L out of
                                             Inl e \<Rightarrow> Inl e
                                           | Inr pdfBytes \<Rightarrow>
                                               Inr \<lparr>st_pdfDoc =
                                                      PDFDocument_load pdfBuff (st_next_id st + 2),
                                                    st_newDoc =
                                                      PDFDocument_create (st_next_id st + 1),
                                                    st_cachedFonts = Map.empty,
                                                    st_written = st_written st @
                                                      [(outputName output i, pdfBytes)],
                                                    st_next_id = st_next_id st + 3\<rparr>)
                                        else
                                          Inr \<lparr>st_pdfDoc =
                                                 PDFDocument_load pdfBuff (st_next_id st + 1),
                                               st_newDoc = out,
                                               st_cachedFonts = snd drawn,
                                               st_written = st_written st,
                                               st_next_id = st_next_id st + 2\<rparr>))))))"

text \<open>The loop over the rows, from row \<open>i\<close> on; a throw ends it.\<close>

fun renderPdf_rows ::
  "lib \<Rightarrow> string \<Rightarrow> pdf_bytes \<Rightarrow> int \<Rightarrow> bool \<Rightarrow> CanvasObjects option \<Rightarrow> real option
     \<Rightarrow> FormMap option \<Rightarrow> nat \<Rightarrow> RowMap list \<Rightarrow> render_state \<Rightarrow> error + render_state" where
  "renderPdf_rows L output pdfBuff pageIndex combinePdf canvasData canvasWidth formData i [] st =
     Inr st"
| "renderPdf_rows L output pdfBuff pageIndex combinePdf canvasData canvasWidth formData i
     (row # rows) st =
     (case renderPdf_row L output pdfBuff pageIndex combinePdf canvasData canvasWidth formData
             i row st of
        Inl e \<Rightarrow> Inl e
      | Inr st' \<Rightarrow>
          renderPdf_rows L output pdfBuff pageIndex combinePdf canvasData canvasWidth formData
            (i + 1) rows st')"

definition initial_state :: "pdf_bytes \<Rightarrow> render_state" where
  "initial_state pdfBuff =
     \<lparr>st_pdfDoc = PDFDocument_load pdfBuff 0,
      st_newDoc = PDFDocument_create 1,
      st_cachedFonts = Map.empty,
      st_written = [],
      st_next_id = 2\<rparr>"

text \<open>
  \<open>renderPdf\<close>: the number returned and the files written, or the error thrown (the
  files written before a throw are not part of the result).
\<close>

definition renderPdf ::
  "lib \<Rightarrow> string \<Rightarrow> string \<Rightarrow> int \<Rightarrow> string \<Rightarrow> int \<Rightarrow> bool \<Rightarrow> CanvasObjects option
     \<Rightarrow> real option \<Rightarrow> FormMap option \<Rightarrow> error + nat \<times> (string \<times> pdf_bytes) list" where
  "renderPdf L output pdfFile pageIndex excelFile rowsLimit combinePdf canvasData canvasWidth
     formData =
     (case fs_readFile L pdfFile of
        Inl e \<Rightarrow> Inl e
      | Inr pdfBuff \<Rightarrow>
          (case readFirstSheet L excelFile rowsLimit of
             Inl e \<Rightarrow> Inl e
           | Inr rows \<Rightarrow>
               (case renderPdf_rows L output pdfBuff pageIndex combinePdf canvasData canvasWidth
                       formData 0 rows (initial_state pdfBuff) of
                  Inl e \<Rightarrow> Inl e
                | Inr st \<Rightarrow>
                    if combinePdf
                    then (case save L (st_newDoc st) of
                            Inl e \<Rightarrow> Inl e
                          | Inr pdfBytes \<Rightarrow> Inr (1, st_written st @ [(output, pdfBytes)]))
                    else Inr (length rows, st_written st))))"

section \<open>Notions used in the statements\<close>

text \<open>
  An element drawn at twice the scale: every authoring length it carries is doubled;
  a length it does not carry stays absent.
\<close>

definition double_geometry :: "canvas_object \<Rightarrow> canvas_object" where
  "double_geometry o' =
     o'\<lparr>o_left := map_option (\<lambda>v. 2 * v) (o_left o'),
        o_top := map_option (\<lambda>v. 2 * v) (o_top o'),
        o_width := map_option (\<lambda>v. 2 * v) (o_width o'),
        o_height := map_option (\<lambda>v. 2 * v) (o_height o'),
        o_fontSize := map_option (\<lambda>v. 2 * v) (o_fontSize o')\<rparr>"

text \<open>A length that is present and not zero, so that \<open>v || d\<close> is \<open>v\<close>.\<close>

definition nonzero :: "real option \<Rightarrow> bool" where
  "nonzero v = (case v of None \<Rightarrow> False | Some x \<Rightarrow> x \<noteq> 0)"






section \<open>Example data\<close>

text \<open>
  A sheet with a header and two rows (the second without a city), a one-page template
  with a text field and a dropdown, the same template with a text field of at most
  three characters, an overlay of one text box, and stand-ins for the libraries:
  numbers are printed by their integer part, a font is one fifth taller with its
  descender, the layout puts the whole text on one line at the corner of the box, a
  font encodes the characters below 128, the appearance of a text field can be drawn
  when the default font encodes its text, the reader keeps the first \<open>sheetRows\<close>
  rows.
\<close>

definition ex_sheet :: worksheet where
  "ex_sheet =
     \<lparr>ref = Some \<lparr>s_r = 0, s_c = 0, e_r = 2, e_c = 1\<rparr>,
      cells = [(0, 0) \<mapsto> JString ''Name'', (0, 1) \<mapsto> JString ''City'',
               (1, 0) \<mapsto> JString ''Alice'', (1, 1) \<mapsto> JString ''Paris'',
               (2, 0) \<mapsto> JString ''Bob'']\<rparr>"

definition ex_page :: PDFPage where
  "ex_page = \<lparr>page_width = 600, page_height = 800, content = [], baked = []\<rparr>"

definition ex_form :: "PDFField list" where
  "ex_form = [PDFTextField ''Name'' None None, PDFDropdown ''City'' [''Paris'', ''Rome''] []]"

definition ex_template :: pdf_bytes where
  "ex_template = \<lparr>b_pages = [ex_page], b_fields = ex_form\<rparr>"

definition ex_short_template :: pdf_bytes where
  "ex_short_template =
     \<lparr>b_pages = [ex_page],
      b_fields = [PDFTextField ''Name'' (Some 3) None,
                  PDFDropdown ''City'' [''Paris'', ''Rome''] []]\<rparr>"

definition ex_encodes :: "string \<Rightarrow> string \<Rightarrow> bool" where
  "ex_encodes name text = list_all (\<lambda>c. (of_char c :: nat) < 128) text"

definition ex_updateAppearance :: "PDFField \<Rightarrow> bool" where
  "ex_updateAppearance f =
     (case f of PDFTextField n m (Some t) \<Rightarrow> ex_encodes Helvetica t | _ \<Rightarrow> True)"

definition ex_lib :: lib where
  "ex_lib =
     \<lparr>numberToString = (\<lambda>n. decimal (nat \<lfloor>n\<rfloor>)),
      heightAtSize = (\<lambda>name size descender. if descender then size * 6 / 5 else size),
      layoutMultilineText =
        (\<lambda>text opts. [\<lparr>line_text = text, line_x = b_x (l_bounds opts),
                         line_y = b_y (l_bounds opts)\<rparr>]),
      encodes = ex_encodes,
      updateAppearance = ex_updateAppearance,
      xlsx_readFile =
        (\<lambda>path sheetRows.
           if path = ''data.xlsx''
           then Inr \<lparr>SheetNames = [''Sheet1''],
                     Sheets = [''Sheet1'' \<mapsto>
                       ex_sheet\<lparr>ref := Some \<lparr>s_r = 0, s_c = 0,
                         e_r = (if 0 < sheetRows then min 2 (nat sheetRows - 1) else 2),
                         e_c = 1\<rparr>\<rparr>]\<rparr>
           else Inl ReadError),
      fs_readFile =
        (\<lambda>path. if path = ''template.pdf'' then Inr ex_template
                 else if path = ''short.pdf'' then Inr ex_short_template
                 else Inl ReadError)\<rparr>"

definition ex_text :: canvas_object where
  "ex_text =
     \<lparr>o_type = ''text'', o_fill = Some ''#ff0000'', o_fontFamily = None,
      o_fontSize = Some 16, o_left = Some 10, o_top = Some 20, o_width = Some 100,
      o_height = Some 20, o_textAlign = None, o_lineHeight = None, o_index = 0\<rparr>"

definition ex_row :: RowMap where
  "ex_row = [0 \<mapsto> JString ''Alice'']"


definition ex_row1 :: RowMap where
  "ex_row1 = [0 \<mapsto> JString ''Alice'', 1 \<mapsto> JString ''Paris'']"


section \<open>Properties of the row reader\<close>

lemmas ex_defs = ex_sheet_def ex_template_def ex_lib_def ex_text_def ex_page_def ex_row_def
  ex_form_def

lemma forEach_row_lookup:
  "forEach_row arr i row k =
     (if i \<le> k \<and> k < i + int (length arr) then Some (arr ! nat (k - i)) else row k)"
proof (induction arr arbitrary: i row)
  case Nil
  then show ?case by auto
next
  case (Cons r rs)
  have step: "forEach_row (r # rs) i row k =
      (if i + 1 \<le> k \<and> k < i + 1 + int (length rs) then Some (rs ! nat (k - (i + 1)))
       else (row(i \<mapsto> r)) k)"
    by (simp only: forEach_row.simps Cons.IH)
  have idx: "i + 1 \<le> k \<Longrightarrow> nat (k - i) = Suc (nat (k - (i + 1)))" by linarith
  show ?case
    unfolding step using idx by (cases "k = i") auto
qed

text \<open>
  C7. \<open>readFirstSheet\<close> asks the reader for \<open>rowsLimit + 1\<close> rows. When the reader
  returns a workbook whose first sheet declares a range of at most that many rows, the
  result has one row for each row of the range but the first (the header), so at most
  \<open>rowsLimit\<close> rows; and row \<open>j\<close> of the result is defined exactly at the indices
  \<open>0 .. e_c - s_c\<close>, where it holds the value of the cell in row \<open>s_r + 1 + j\<close> and
  that column of the range, or the empty string when the sheet has no such cell.
\<close>

theorem readFirstSheet_rectangular:
  assumes rd: "xlsx_readFile L path (rowsLimit + 1) = Inr wb"
    and sh: "Sheets wb (case SheetNames wb of [] \<Rightarrow> ''undefined'' | n # _ \<Rightarrow> n) = Some sheet"
    and rf: "ref sheet = Some rg"
    and lim: "0 \<le> rowsLimit"
    and kept: "Suc (e_r rg) - s_r rg \<le> nat (rowsLimit + 1)"
  shows "\<exists>rows. readFirstSheet L path rowsLimit = Inr rows
           \<and> length rows = e_r rg - s_r rg
           \<and> int (length rows) \<le> rowsLimit
           \<and> (\<forall>j < length rows. \<forall>i.
                 (rows ! j) i =
                   (if 0 \<le> i \<and> s_c rg + nat i \<le> e_c rg
                    then Some (case cells sheet (s_r rg + 1 + j, s_c rg + nat i) of
                                 None \<Rightarrow> JString [] | Some v \<Rightarrow> v)
                    else None))"
proof -
  let ?cell = "\<lambda>r c. case cells sheet (r, c) of None \<Rightarrow> JString [] | Some v \<Rightarrow> v"
  let ?rows = "map (\<lambda>arr. forEach_row arr 0 Map.empty) (drop headerOffset (sheetToArray sheet))"
  have r: "readFirstSheet L path rowsLimit = Inr ?rows"
    using rd sh by (simp add: readFirstSheet_def headerOffset_def)
  have len: "length ?rows = e_r rg - s_r rg"
    using rf by (simp add: sheetToArray_def headerOffset_def)
  have le: "int (length ?rows) \<le> rowsLimit"
    using len kept lim by linarith
  have cellsOK: "(?rows ! j) i =
                   (if 0 \<le> i \<and> s_c rg + nat i \<le> e_c rg
                    then Some (?cell (s_r rg + 1 + j) (s_c rg + nat i))
                    else None)" if j: "j < length ?rows" for j i
  proof -
    have j': "j < e_r rg - s_r rg" using j len by simp
    have "drop headerOffset (sheetToArray sheet) ! j =
            map (\<lambda>colNum. ?cell (s_r rg + 1 + j) colNum) [s_c rg ..< Suc (e_c rg)]"
      using rf j' by (simp add: sheetToArray_def headerOffset_def del: upt_Suc)
    then have "(?rows ! j) i =
        forEach_row (map (\<lambda>colNum. ?cell (s_r rg + 1 + j) colNum) [s_c rg ..< Suc (e_c rg)])
          0 Map.empty i"
      using j by simp
    also have "\<dots> = (if 0 \<le> i \<and> s_c rg + nat i \<le> e_c rg
                    then Some (?cell (s_r rg + 1 + j) (s_c rg + nat i))
                    else None)"
      by (auto simp add: forEach_row_lookup nth_append simp del: upt_Suc)
    finally show ?thesis .
  qed
  show ?thesis using r len le cellsOK by blast
qed

theorem readFirstSheet_rectangular_witness:
  "\<exists>rows. readFirstSheet ex_lib ''data.xlsx'' 5 = Inr rows
     \<and> length rows = 2 \<and> (rows ! 1) 0 = Some (JString ''Bob'')
     \<and> (rows ! 1) 1 = Some (JString [])
     \<and> (rows ! 1) 2 = None"
proof -
  let ?rg = "\<lparr>s_r = 0, s_c = 0, e_r = 2, e_c = 1\<rparr>"
  let ?sheet = "ex_sheet\<lparr>ref := Some ?rg\<rparr>"
  let ?wb = "\<lparr>SheetNames = [''Sheet1''], Sheets = [''Sheet1'' \<mapsto> ?sheet]\<rparr>"
  have rd: "xlsx_readFile ex_lib ''data.xlsx'' (5 + 1) = Inr ?wb" by (simp add: ex_lib_def)
  have sh: "Sheets ?wb (case SheetNames ?wb of [] \<Rightarrow> ''undefined'' | n # _ \<Rightarrow> n) = Some ?sheet"
    by simp
  have rf: "ref ?sheet = Some ?rg" by simp
  have lim: "(0::int) \<le> 5" by simp
  have kept: "Suc (e_r ?rg) - s_r ?rg \<le> nat (5 + 1)" by simp
  from readFirstSheet_rectangular[OF rd sh rf lim kept]
  obtain rows where r: "readFirstSheet ex_lib ''data.xlsx'' 5 = Inr rows"
    and len: "length rows = 2"
    and c: "\<forall>j<length rows. \<forall>i. (rows ! j) i =
              (if 0 \<le> i \<and> s_c ?rg + nat i \<le> e_c ?rg
               then Some (case cells ?sheet (s_r ?rg + 1 + j, s_c ?rg + nat i) of
                            None \<Rightarrow> JString [] | Some v \<Rightarrow> v)
               else None)"
    by auto
  have "(rows ! 1) 0 = Some (JString ''Bob'')" "(rows ! 1) 1 = Some (JString [])"
       "(rows ! 1) 2 = None"
    using c len by (simp_all add: ex_sheet_def)
  then show ?thesis using r len by blast
qed

section \<open>Properties of the form populator\<close>


lemma getFieldMaybe_mem: "getFieldMaybe form k = Some f \<Longrightarrow> f \<in> set form"
  by (induction form) (auto split: if_splits)




lemma names_store: "getName g = k \<Longrightarrow> map getName (store_field form k g) = map getName form"
  by (induction form) auto

lemma build_fieldMap_notin:
  "k \<notin> getName ` set form \<Longrightarrow> build_fieldMap form m k = m k"
  by (induction form arbitrary: m) auto


lemma getName_check [simp]: "getName (check f) = getName f"
  by (cases f) auto
lemma getName_uncheck [simp]: "getName (uncheck f) = getName f"
  by (cases f) auto
lemma getName_select [simp]: "getName (select f v) = getName f"
  by (cases f) auto
lemma getFieldType_check [simp]: "getFieldType (Some (check f)) = getFieldType (Some f)"
  by (cases f) auto
lemma getFieldType_uncheck [simp]: "getFieldType (Some (uncheck f)) = getFieldType (Some f)"
  by (cases f) auto
lemma getFieldType_select [simp]: "getFieldType (Some (select f v)) = getFieldType (Some f)"
  by (cases f) auto












section \<open>Properties of the page renderer\<close>

text \<open>
  C9. Without an overlay description, or with a canvas width that is \<open>undefined\<close> or
  zero, \<open>renderPage\<close> returns without error, with the page and the font cache as they
  were: nothing is drawn, no font is embedded, and the ratio is not computed.
\<close>

theorem renderPage_no_overlay:
  assumes "canvasData = None \<or> canvasWidth = None \<or> canvasWidth = Some 0"
  shows "renderPage L row page pdfDoc cachedFonts canvasData canvasWidth =
           Inr (page, cachedFonts)"
  using assms by (auto simp: renderPage_def split: option.splits)

theorem renderPage_no_overlay_witness:
  "renderPage ex_lib ex_row ex_page (PDFDocument_load ex_template 0) Map.empty
     (Some \<lparr>objects = [ex_text]\<rparr>) (Some 0) = Inr (ex_page, Map.empty)"
  using renderPage_no_overlay[of "Some \<lparr>objects = [ex_text]\<rparr>" "Some 0"] by simp

lemma hex_ff0000: "hexToRgb ''#ff0000'' = (255, 0, 0)"
  by (simp add: hexToRgb_def isHexDigit_def parseHex_def hexDigitValue_def)

lemma Helvetica_standard: "Helvetica \<in> set StandardFontValues"
  by (simp add: Helvetica_def StandardFontValues_def)

lemmas draw_defs = renderPage_def render_object_def getFont_def embedFont_def
  Helvetica_standard Let_def row_get_def or_default_def text_alignment_def hex_ff0000
  ex_encodes_def

text \<open>
  C2. The claim is that a text box whose column has no value in the row draws the
  empty string. The code coerces first and guards afterwards: on a row that has column
  0 only, a text box on column 5 draws the text \<open>undefined\<close>, and nothing is thrown.
\<close>

theorem renderPage_missing_value_draws_undefined:
  "renderPage ex_lib ex_row ex_page (PDFDocument_load ex_template 0)
      Map.empty (Some \<lparr>objects = [ex_text\<lparr>o_index := 5\<rparr>]\<rparr>) (Some 600) =
     Inr (ex_page\<lparr>content :=
            [\<lparr>op_text = ''undefined'', op_x = 11, op_y = 3816 / 5, op_lineHeight = None,
              op_size = 16, op_font = \<lparr>font_name = Helvetica, owner = 0\<rparr>,
              op_maxWidth = 100, op_color = (1, 0, 0)\<rparr>]\<rparr>,
          [Helvetica \<mapsto> \<lparr>font_name = Helvetica, owner = 0\<rparr>])"
  by (simp add: draw_defs ex_defs PDFDocument_load_def)

text \<open>
  C4, as stated, fails for a font size of zero: the code takes 16 in its place, so on a
  page 600 wide authored on a canvas 300 wide the text is drawn at size 32, not at
  \<open>0 * ratio\<close>.
\<close>

theorem renderPage_size_counterexample:
  "renderPage ex_lib ex_row ex_page (PDFDocument_load ex_template 0)
      Map.empty (Some \<lparr>objects = [ex_text\<lparr>o_fontSize := Some 0\<rparr>]\<rparr>) (Some 300) =
     Inr (ex_page\<lparr>content :=
            [\<lparr>op_text = ''Alice'', op_x = 21, op_y = 3632 / 5, op_lineHeight = None,
              op_size = 32, op_font = \<lparr>font_name = Helvetica, owner = 0\<rparr>,
              op_maxWidth = 200, op_color = (1, 0, 0)\<rparr>]\<rparr>,
          [Helvetica \<mapsto> \<lparr>font_name = Helvetica, owner = 0\<rparr>])
   \<and> 0 * (page_width ex_page / 300) \<noteq> (32::real)"
  by (simp add: draw_defs ex_defs PDFDocument_load_def)

lemma renderPage_loop_append:
  "renderPage_loop L row pdfDoc ratio ph (xs @ ys) st =
     (case renderPage_loop L row pdfDoc ratio ph xs st of
        Inl e \<Rightarrow> Inl e
      | Inr st' \<Rightarrow> renderPage_loop L row pdfDoc ratio ph ys st')"
  by (induction xs arbitrary: st) (auto split: sum.splits)

lemma or_default_Some: "x \<noteq> 0 \<Longrightarrow> or_default (Some x) d = x"
  by (simp add: or_default_def)

lemma or_default_Some_zero: "or_default (Some x) 0 = x"
  by (simp add: or_default_def)

text \<open>
  C4, amended. For a canvas width \<open>w\<close> other than zero and a text element that carries
  \<open>left\<close>, \<open>top\<close>, \<open>height\<close> and a font size other than zero, wherever it stands in
  the overlay: with \<open>ratio = pageWidth / w\<close>, the element is laid out and drawn at
  \<open>size = fontSize * ratio\<close>, in a box at \<open>x = left * ratio + 1\<close> and
  \<open>y = pageHeight - top * ratio - height * ratio + offset\<close>, where \<open>offset\<close> is the
  height of the font at that size less its height without the descender. (It is drawn
  unless an element before it, the embedding of its font or the encoding of its text
  throws.)
\<close>

theorem renderPage_text_geometry:
  assumes w: "w \<noteq> 0" and ty: "o_type obj = ''text''"
    and fs: "o_fontSize obj = Some fs" "fs \<noteq> 0"
    and l: "o_left obj = Some l" and t: "o_top obj = Some t" and h: "o_height obj = Some h"
  shows "renderPage L row page pdfDoc cache (Some \<lparr>objects = pre @ [obj]\<rparr>) (Some w) =
     (case renderPage L row page pdfDoc cache (Some \<lparr>objects = pre\<rparr>) (Some w) of
        Inl e \<Rightarrow> Inl e
      | Inr before \<Rightarrow>
          (case getFont (o_fontFamily obj) pdfDoc (snd before) of
             Inl e \<Rightarrow> Inl e
           | Inr fc \<Rightarrow>
               (let ratio = page_width page / w;
                    size = fs * ratio;
                    offset = heightAtSize L (font_name (fst fc)) size True
                               - heightAtSize L (font_name (fst fc)) size False;
                    x = l * ratio + 1;
                    y = page_height page - t * ratio - h * ratio + offset;
                    maxWidth = or_default (o_width obj) 100 * ratio;
                    color = (let c = hexToRgb (case o_fill obj of None \<Rightarrow> ''undefined''
                                                 | Some s \<Rightarrow> s)
                             in (real (fst c) / 255, real (fst (snd c)) / 255,
                                 real (snd (snd c)) / 255));
                    shown = toStr L (row_get row (o_index obj));
                    lines = layoutMultilineText L shown
                              \<lparr>l_font = font_name (fst fc), l_fontSize = size,
                               l_bounds = \<lparr>b_x = x, b_y = y, b_width = maxWidth,
                                           b_height = or_default (Some h) 100 * ratio\<rparr>,
                               l_alignment = text_alignment obj\<rparr>
                in if encodes L (font_name (fst fc)) shown
                      \<and> list_all (\<lambda>p. encodes L (font_name (fst fc)) (line_text p)) lines
                   then Inr ((fst before)\<lparr>content := content (fst before) @
                               map (\<lambda>p. \<lparr>op_text = line_text p, op_x = line_x p,
                                          op_y = line_y p, op_lineHeight = o_lineHeight obj,
                                          op_size = size, op_font = fst fc,
                                          op_maxWidth = maxWidth, op_color = color\<rparr>) lines\<rparr>,
                             snd fc)
                   else Inl (EncodingError (font_name (fst fc))))))"
proof -
  let ?ratio = "page_width page / w"
  let ?loop = "renderPage_loop L row pdfDoc ?ratio (page_height page)"
  have unfold: "renderPage L row page pdfDoc cache (Some \<lparr>objects = os\<rparr>) (Some w) =
                  ?loop os (page, cache)" for os
    using w by (simp add: renderPage_def Let_def)
  show ?thesis
  proof (cases "?loop pre (page, cache)")
    case (Inl e)
    then show ?thesis unfolding unfold renderPage_loop_append by simp
  next
    case (Inr before)
    show ?thesis
    proof (cases "getFont (o_fontFamily obj) pdfDoc (snd before)")
      case (Inl e)
      then show ?thesis unfolding unfold renderPage_loop_append using Inr ty
        by (simp add: render_object_def Let_def)
    next
      case fc: (Inr fc)
      show ?thesis unfolding unfold renderPage_loop_append using Inr fc ty fs l t h
        by (simp add: render_object_def Let_def or_default_Some or_default_Some_zero)
    qed
  qed
qed

theorem renderPage_text_geometry_witness:
  "renderPage ex_lib ex_row ex_page (PDFDocument_load ex_template 0)
      Map.empty (Some \<lparr>objects = [] @ [ex_text]\<rparr>) (Some 300) =
     Inr (ex_page\<lparr>content :=
            [\<lparr>op_text = ''Alice'', op_x = 21, op_y = 3632 / 5, op_lineHeight = None,
              op_size = 32, op_font = \<lparr>font_name = Helvetica, owner = 0\<rparr>,
              op_maxWidth = 200, op_color = (1, 0, 0)\<rparr>]\<rparr>,
          [Helvetica \<mapsto> \<lparr>font_name = Helvetica, owner = 0\<rparr>])"
proof -
  have w: "(300::real) \<noteq> 0" by simp
  have ty: "o_type ex_text = ''text''" by (simp add: ex_text_def)
  have fs: "o_fontSize ex_text = Some 16" "(16::real) \<noteq> 0" by (simp_all add: ex_text_def)
  have l: "o_left ex_text = Some 10" and t: "o_top ex_text = Some 20"
    and h: "o_height ex_text = Some 20" by (simp_all add: ex_text_def)
  have pre: "renderPage ex_lib ex_row ex_page (PDFDocument_load ex_template 0) Map.empty
               (Some \<lparr>objects = []\<rparr>) (Some 300) = Inr (ex_page, Map.empty)"
    by (simp add: renderPage_def)
  have font: "getFont None (PDFDocument_load ex_template 0) Map.empty =
                Inr (\<lparr>font_name = Helvetica, owner = 0\<rparr>,
                     [Helvetica \<mapsto> \<lparr>font_name = Helvetica, owner = 0\<rparr>])"
    by (simp add: getFont_def embedFont_def Helvetica_standard PDFDocument_load_def)
  show ?thesis
    unfolding renderPage_text_geometry[OF w ty fs l t h, of ex_lib ex_row ex_page
        "PDFDocument_load ex_template 0" Map.empty "[]"] pre
    by (simp add: font Let_def ex_lib_def ex_page_def ex_text_def ex_row_def row_get_def
          or_default_def text_alignment_def hex_ff0000 ex_encodes_def)
qed

text \<open>
  C5, as stated, fails for an element whose font size is zero: doubled, it is zero
  still, the code takes 16 for it on both canvases, and the drawn size follows the
  ratio: 16 on the canvas 600 wide, 32 on the canvas 300 wide.
\<close>

theorem renderPage_scale_counterexample:
  "renderPage ex_lib ex_row ex_page (PDFDocument_load ex_template 0)
      Map.empty (Some \<lparr>objects = [double_geometry (ex_text\<lparr>o_fontSize := Some 0\<rparr>)]\<rparr>)
      (Some (2 * 300)) =
     Inr (ex_page\<lparr>content :=
            [\<lparr>op_text = ''Alice'', op_x = 21, op_y = 3616 / 5, op_lineHeight = None,
              op_size = 16, op_font = \<lparr>font_name = Helvetica, owner = 0\<rparr>,
              op_maxWidth = 200, op_color = (1, 0, 0)\<rparr>]\<rparr>,
          [Helvetica \<mapsto> \<lparr>font_name = Helvetica, owner = 0\<rparr>])
   \<and> renderPage ex_lib ex_row ex_page (PDFDocument_load ex_template 0)
      Map.empty (Some \<lparr>objects = [ex_text\<lparr>o_fontSize := Some 0\<rparr>]\<rparr>) (Some 300) =
     Inr (ex_page\<lparr>content :=
            [\<lparr>op_text = ''Alice'', op_x = 21, op_y = 3632 / 5, op_lineHeight = None,
              op_size = 32, op_font = \<lparr>font_name = Helvetica, owner = 0\<rparr>,
              op_maxWidth = 200, op_color = (1, 0, 0)\<rparr>]\<rparr>,
          [Helvetica \<mapsto> \<lparr>font_name = Helvetica, owner = 0\<rparr>])"
  by (simp add: draw_defs ex_defs PDFDocument_load_def double_geometry_def)

lemma render_object_double:
  assumes "w \<noteq> 0"
    and "o_type obj = ''text'' \<longrightarrow>
           nonzero (o_fontSize obj) \<and> nonzero (o_width obj) \<and> nonzero (o_height obj)"
  shows "render_object L row pdfDoc (pw / (2 * w)) ph (double_geometry obj) st =
         render_object L row pdfDoc (pw / w) ph obj st"
proof (cases "o_type obj = ''text''")
  case False
  then show ?thesis by (simp add: render_object_def double_geometry_def)
next
  case True
  with assms obtain fs wd h where v: "o_fontSize obj = Some fs" "fs \<noteq> 0"
      "o_width obj = Some wd" "wd \<noteq> 0" "o_height obj = Some h" "h \<noteq> 0"
    by (auto simp: nonzero_def split: option.splits)
  have sc: "or_default (map_option (\<lambda>v. 2 * v) a) 0 * (pw / (2 * w)) = or_default a 0 * (pw / w)" for a
    using assms(1) by (cases a) (auto simp: or_default_def)
  have sc2: "x \<noteq> 0 \<Longrightarrow> or_default (Some (2 * x)) d * (pw / (2 * w)) = or_default (Some x) d * (pw / w)" for x d
    using assms(1) by (auto simp: or_default_def)
  show ?thesis
  proof (cases "getFont (o_fontFamily obj) pdfDoc (snd st)")
    case (Inl e)
    then show ?thesis using True
      by (simp add: render_object_def double_geometry_def Let_def)
  next
    case (Inr fc)
    then show ?thesis
      using True v sc[of "o_left obj"] sc[of "o_top obj"] sc[of "o_height obj"]
        sc2[of fs 16] sc2[of wd 100] sc2[of h 100]
      by (simp add: render_object_def double_geometry_def Let_def text_alignment_def)
  qed
qed

text \<open>
  C5, amended. For a canvas width other than zero and an overlay whose text elements
  all carry a font size, a width and a height other than zero: doubling the canvas
  width and every authoring length of every element gives the same result, that is the
  same page and the same font cache, hence the same position, size and bounds for
  every line drawn (or the same error).
\<close>

theorem renderPage_scale_invariant:
  assumes w: "w \<noteq> 0"
    and nz: "\<forall>obj \<in> set objs. o_type obj = ''text'' \<longrightarrow>
               nonzero (o_fontSize obj) \<and> nonzero (o_width obj) \<and> nonzero (o_height obj)"
  shows "renderPage L row page pdfDoc cache (Some \<lparr>objects = map double_geometry objs\<rparr>)
           (Some (2 * w)) =
         renderPage L row page pdfDoc cache (Some \<lparr>objects = objs\<rparr>) (Some w)"
proof -
  have "renderPage_loop L row pdfDoc (pw / (2 * w)) ph (map double_geometry objs) st =
        renderPage_loop L row pdfDoc (pw / w) ph objs st" for pw ph st
    using nz
  proof (induction objs arbitrary: st)
    case Nil
    then show ?case by simp
  next
    case (Cons obj objs)
    then show ?case using render_object_double[OF w, of obj L row pdfDoc pw ph st]
      by (simp split: sum.splits)
  qed
  then show ?thesis using w by (simp add: renderPage_def Let_def)
qed

theorem renderPage_scale_invariant_witness:
  "renderPage ex_lib ex_row ex_page (PDFDocument_load ex_template 0) Map.empty
     (Some \<lparr>objects = map double_geometry [ex_text]\<rparr>) (Some (2 * 300))
   = renderPage ex_lib ex_row ex_page (PDFDocument_load ex_template 0) Map.empty
     (Some \<lparr>objects = [ex_text]\<rparr>) (Some 300)"
proof -
  have w: "(300::real) \<noteq> 0" by simp
  have nz: "\<forall>obj \<in> set [ex_text]. o_type obj = ''text'' \<longrightarrow>
               nonzero (o_fontSize obj) \<and> nonzero (o_width obj) \<and> nonzero (o_height obj)"
    by (simp add: ex_text_def nonzero_def)
  show ?thesis by (rule renderPage_scale_invariant[OF w nz])
qed

section \<open>Properties of the output names\<close>

lemma split_not_Nil: "split s c \<noteq> []"
  by (induction s) auto

lemma split_no_sep: "c \<notin> set s \<Longrightarrow> split s c = [s]"
  by (induction s) auto

lemma split_append_sep:
  "c \<notin> set ext \<Longrightarrow> split (base @ c # ext) c = split base c @ [ext]"
proof (induction base)
  case Nil
  then show ?case by (simp add: split_no_sep)
next
  case (Cons x xs)
  then show ?case using split_not_Nil[of xs c] by (cases "split xs c") auto
qed

lemma join_Cons_Cons: "join ((x # p) # ps) sep = x # join (p # ps) sep"
  by (cases ps) auto

lemma join_split: "join (split s c) [c] = s"
proof (induction s)
  case Nil
  then show ?case by simp
next
  case (Cons x xs)
  obtain p ps where r: "split xs c = p # ps"
    using split_not_Nil[of xs c] by (cases "split xs c") auto
  show ?case
  proof (cases "x = c")
    case True
    then show ?thesis using Cons r by simp
  next
    case False
    then show ?thesis using Cons r by (simp add: join_Cons_Cons)
  qed
qed

lemma outputName_extension:
  assumes "CHR ''.'' \<notin> set ext"
  shows "outputName (base @ ''.'' @ ext) i = base @ ''-'' @ decimal (Suc i) @ ''.'' @ ext"
  using assms split_append_sep[of "CHR ''.''" ext base]
  by (simp add: outputName_def Let_def join_split)








section \<open>Properties of the document assembler\<close>





















lemma ex_read_template: "fs_readFile ex_lib ''template.pdf'' = Inr ex_template"
  by (simp add: ex_lib_def)


lemma ex_read_rows:
  "readFirstSheet ex_lib ''data.xlsx'' 5 =
     Inr [[0 \<mapsto> JString ''Alice'', 1 \<mapsto> JString ''Paris''],
          [0 \<mapsto> JString ''Bob'', 1 \<mapsto> JString []]]"
  by (simp add: readFirstSheet_def sheetToArray_def headerOffset_def ex_lib_def ex_sheet_def
        eval_nat_numeral)

lemmas run_defs = renderPdf_row_def initial_state_def renderForm_def getPage_def
  PDFDocument_load_def PDFDocument_create_def save_def copyPage_def addPage_def
  ex_updateAppearance_def



lemma ex_output_names:
  "outputName ''out'' 0 = ''-1.out''" "outputName ''out'' (Suc 0) = ''-2.out''"
  "outputName ''a.b/c'' 0 = ''a-1.b/c''" "outputName ''a.b/c'' (Suc 0) = ''a-2.b/c''"
  by code_simp+




text \<open>
  C6. In combined mode the one file is written to the output path (see
  \<open>renderPdf_combined_result\<close>). In split mode the claim is that \<open>-i\<close> is put before
  the final extension of the output path. The code cuts the path at its last dot,
  whether or not that dot starts an extension: for the output path \<open>out\<close>, which has
  no dot, the files of rows 1 and 2 are named \<open>-1.out\<close> and \<open>-2.out\<close>, and for
  \<open>a.b/c\<close>, whose only dot is in the directory, \<open>a-1.b/c\<close> and \<open>a-2.b/c\<close>.
\<close>

theorem renderPdf_split_names_without_extension:
  "renderPdf ex_lib ''out'' ''template.pdf'' 0 ''data.xlsx'' 5 False None None None =
     Inr (2, [(''-1.out'', \<lparr>b_pages = [ex_page\<lparr>baked := ex_form\<rparr>], b_fields = []\<rparr>),
              (''-2.out'', \<lparr>b_pages = [ex_page\<lparr>baked := ex_form\<rparr>], b_fields = []\<rparr>)])
   \<and> renderPdf ex_lib ''a.b/c'' ''template.pdf'' 0 ''data.xlsx'' 5 False None None None =
     Inr (2, [(''a-1.b/c'', \<lparr>b_pages = [ex_page\<lparr>baked := ex_form\<rparr>], b_fields = []\<rparr>),
              (''a-2.b/c'', \<lparr>b_pages = [ex_page\<lparr>baked := ex_form\<rparr>], b_fields = []\<rparr>)])"
proof (intro conjI)
  show "renderPdf ex_lib ''out'' ''template.pdf'' 0 ''data.xlsx'' 5 False None None None =
     Inr (2, [(''-1.out'', \<lparr>b_pages = [ex_page\<lparr>baked := ex_form\<rparr>], b_fields = []\<rparr>),
              (''-2.out'', \<lparr>b_pages = [ex_page\<lparr>baked := ex_form\<rparr>], b_fields = []\<rparr>)])"
    unfolding renderPdf_def ex_read_template ex_read_rows
    by (simp add: run_defs renderPage_def ex_output_names Let_def ex_defs)
  show "renderPdf ex_lib ''a.b/c'' ''template.pdf'' 0 ''data.xlsx'' 5 False None None None =
     Inr (2, [(''a-1.b/c'', \<lparr>b_pages = [ex_page\<lparr>baked := ex_form\<rparr>], b_fields = []\<rparr>),
              (''a-2.b/c'', \<lparr>b_pages = [ex_page\<lparr>baked := ex_form\<rparr>], b_fields = []\<rparr>)])"
    unfolding renderPdf_def ex_read_template ex_read_rows
    by (simp add: run_defs renderPage_def ex_output_names Let_def ex_defs)
qed

text \<open>
  C1. The claim is that the font cache is emptied whenever the working document is
  parsed afresh. In combined mode it is not: after the first row the working document
  is a new instance (number 3), the cache still holds the Helvetica handle embedded
  into the first instance (number 0), \<open>getFont\<close> returns that handle for the new
  instance, and the page of the second row is drawn with it.
\<close>

theorem renderPdf_combined_keeps_font_handle:
  "renderPdf_rows ex_lib ''out.pdf'' ex_template 0 True (Some \<lparr>objects = [ex_text]\<rparr>)
     (Some 600) None 0 [ex_row1] (initial_state ex_template) =
     Inr \<lparr>st_pdfDoc = PDFDocument_load ex_template 3,
          st_newDoc = \<lparr>doc_id = 1,
            pages = [\<lparr>page_width = 600, page_height = 800,
                      content = [\<lparr>op_text = ''Alice'', op_x = 11, op_y = 3816 / 5,
                                  op_lineHeight = None, op_size = 16,
                                  op_font = \<lparr>font_name = ''Helvetica'', owner = 0\<rparr>,
                                  op_maxWidth = 100, op_color = (1, 0, 0)\<rparr>],
                      baked = ex_form\<rparr>],
            form_fields = []\<rparr>,
          st_cachedFonts = [''Helvetica'' \<mapsto> \<lparr>font_name = ''Helvetica'', owner = 0\<rparr>],
          st_written = [],
          st_next_id = 4\<rparr>
   \<and> getFont None (PDFDocument_load ex_template 3)
        [''Helvetica'' \<mapsto> \<lparr>font_name = ''Helvetica'', owner = 0\<rparr>] =
       Inr (\<lparr>font_name = ''Helvetica'', owner = 0\<rparr>,
            [''Helvetica'' \<mapsto> \<lparr>font_name = ''Helvetica'', owner = 0\<rparr>])
   \<and> renderPdf ex_lib ''out.pdf'' ''template.pdf'' 0 ''data.xlsx'' 5 True
        (Some \<lparr>objects = [ex_text]\<rparr>) (Some 600) None =
     Inr (1, [(''out.pdf'',
       \<lparr>b_pages =
          [\<lparr>page_width = 600, page_height = 800,
             content = [\<lparr>op_text = ''Alice'', op_x = 11, op_y = 3816 / 5,
                         op_lineHeight = None, op_size = 16,
                         op_font = \<lparr>font_name = ''Helvetica'', owner = 0\<rparr>,
                         op_maxWidth = 100, op_color = (1, 0, 0)\<rparr>],
             baked = ex_form\<rparr>,
           \<lparr>page_width = 600, page_height = 800,
             content = [\<lparr>op_text = ''Bob'', op_x = 11, op_y = 3816 / 5,
                         op_lineHeight = None, op_size = 16,
                         op_font = \<lparr>font_name = ''Helvetica'', owner = 0\<rparr>,
                         op_maxWidth = 100, op_color = (1, 0, 0)\<rparr>],
             baked = ex_form\<rparr>],
        b_fields = []\<rparr>)])"
proof (intro conjI)
  show "renderPdf_rows ex_lib ''out.pdf'' ex_template 0 True (Some \<lparr>objects = [ex_text]\<rparr>)
     (Some 600) None 0 [ex_row1] (initial_state ex_template) =
     Inr \<lparr>st_pdfDoc = PDFDocument_load ex_template 3,
          st_newDoc = \<lparr>doc_id = 1,
            pages = [\<lparr>page_width = 600, page_height = 800,
                      content = [\<lparr>op_text = ''Alice'', op_x = 11, op_y = 3816 / 5,
                                  op_lineHeight = None, op_size = 16,
                                  op_font = \<lparr>font_name = ''Helvetica'', owner = 0\<rparr>,
                                  op_maxWidth = 100, op_color = (1, 0, 0)\<rparr>],
                      baked = ex_form\<rparr>],
            form_fields = []\<rparr>,
          st_cachedFonts = [''Helvetica'' \<mapsto> \<lparr>font_name = ''Helvetica'', owner = 0\<rparr>],
          st_written = [],
          st_next_id = 4\<rparr>"
    by (simp add: run_defs draw_defs Helvetica_def StandardFontValues_def ex_defs ex_row1_def)
  show "getFont None (PDFDocument_load ex_template 3)
        [''Helvetica'' \<mapsto> \<lparr>font_name = ''Helvetica'', owner = 0\<rparr>] =
       Inr (\<lparr>font_name = ''Helvetica'', owner = 0\<rparr>,
            [''Helvetica'' \<mapsto> \<lparr>font_name = ''Helvetica'', owner = 0\<rparr>])"
    by (simp add: getFont_def Helvetica_def Let_def)
  show "renderPdf ex_lib ''out.pdf'' ''template.pdf'' 0 ''data.xlsx'' 5 True
        (Some \<lparr>objects = [ex_text]\<rparr>) (Some 600) None =
     Inr (1, [(''out.pdf'',
       \<lparr>b_pages =
          [\<lparr>page_width = 600, page_height = 800,
             content = [\<lparr>op_text = ''Alice'', op_x = 11, op_y = 3816 / 5,
                         op_lineHeight = None, op_size = 16,
                         op_font = \<lparr>font_name = ''Helvetica'', owner = 0\<rparr>,
                         op_maxWidth = 100, op_color = (1, 0, 0)\<rparr>],
             baked = ex_form\<rparr>,
           \<lparr>page_width = 600, page_height = 800,
             content = [\<lparr>op_text = ''Bob'', op_x = 11, op_y = 3816 / 5,
                         op_lineHeight = None, op_size = 16,
                         op_font = \<lparr>font_name = ''Helvetica'', owner = 0\<rparr>,
                         op_maxWidth = 100, op_color = (1, 0, 0)\<rparr>],
             baked = ex_form\<rparr>],
        b_fields = []\<rparr>)])"
    unfolding renderPdf_def ex_read_template ex_read_rows
    by (simp add: run_defs draw_defs Helvetica_def StandardFontValues_def ex_defs)
qed

end
